theory Spec2Isabelle
  imports Main
begin

section \<open>JavaScript values\<close>

text \<open>
  The values that jschannel handles: what \<^verbatim>\<open>JSON.parse\<close> can return, \<^verbatim>\<open>undefined\<close>, and
  functions. A function is one of: a function of the application, known by its identity
  (\<open>Fun\<close>); the channel's own \<^verbatim>\<open>onReady\<close>; a callback stub that the dispatcher builds for a
  request (\<open>Stub id callbacks cbName\<close>: the closure over the transaction's id, its declared
  callbacks and the stub's path). \<open>NativeError\<close> is an error object of the engine
  (\<^verbatim>\<open>TypeError\<close>, \<^verbatim>\<open>SyntaxError\<close>, \<^verbatim>\<open>RangeError\<close>).

  Boundaries of the value model. Values are trees: no sharing and no cycles. Numbers are the
  integers. An object is a plain object (its prototype is \<^verbatim>\<open>Object.prototype\<close>, its
  properties are data properties): the list of its own enumerable properties in enumeration
  order, keys distinct. An array is the list of its elements, where a hole reads as
  \<^verbatim>\<open>undefined\<close> and is written \<open>Undefined\<close>, together with the list of its other own
  properties, those whose key is neither an index nor \<^verbatim>\<open>length\<close>; an array that
  \<^verbatim>\<open>JSON.parse\<close> returns has none. The members that a value inherits from its prototype
  are not part of a value: reading
  one of them from a value gives \<open>Undefined\<close> here. Where the transaction table is read,
  the inherited members are written out (see below); where a theorem depends on the
  difference for the values of a message, it says so in a hypothesis.
\<close>

datatype jsval =
    Undefined
  | Null
  | Bool bool
  | Num int
  | Str string
  | Arr "jsval list" "(string \<times> jsval) list"
  | Obj "(string \<times> jsval) list"
  | Fun nat
  | OnReady
  | Stub jsval jsval string
  | NativeError string

text \<open>The outcome of a call: it returns a value or throws one.\<close>

datatype 'a res = Ok 'a | Throw jsval

definition TypeError :: jsval where
  "TypeError = NativeError ''TypeError''"

text \<open>Truthiness, as \<^verbatim>\<open>if (v)\<close>, \<^verbatim>\<open>!v\<close>, \<^verbatim>\<open>a && b\<close> and \<^verbatim>\<open>a || b\<close> test it.\<close>

fun truthy :: "jsval \<Rightarrow> bool" where
  "truthy Undefined = False"
| "truthy Null = False"
| "truthy (Bool b) = b"
| "truthy (Num n) = (n \<noteq> 0)"
| "truthy (Str s) = (s \<noteq> [])"
| "truthy v = True"

fun typeof :: "jsval \<Rightarrow> string" where
  "typeof Undefined = ''undefined''"
| "typeof Null = ''object''"
| "typeof (Bool b) = ''boolean''"
| "typeof (Num n) = ''number''"
| "typeof (Str s) = ''string''"
| "typeof (Arr xs ps) = ''object''"
| "typeof (Obj ps) = ''object''"
| "typeof (Fun f) = ''function''"
| "typeof OnReady = ''function''"
| "typeof (Stub i cbs c) = ''function''"
| "typeof (NativeError k) = ''object''"

subsection \<open>Numbers as text\<close>

definition digit_char :: "nat \<Rightarrow> char" where
  "digit_char d = ''0123456789'' ! d"

function show_nat :: "nat \<Rightarrow> string" where
  "show_nat n = (if n < 10 then [digit_char n] else show_nat (n div 10) @ [digit_char (n mod 10)])"
  by pat_completeness auto
termination
  by (relation "measure id") auto

declare show_nat.simps [simp del]

definition show_int :: "int \<Rightarrow> string" where
  "show_int i = (if i < 0 then CHR ''-'' # show_nat (nat (- i)) else show_nat (nat i))"

definition is_digit :: "char \<Rightarrow> bool" where
  "is_digit c = (48 \<le> (of_char c :: nat) \<and> (of_char c :: nat) \<le> 57)"

definition digit_val :: "char \<Rightarrow> nat" where
  "digit_val c = (of_char c :: nat) - 48"

text \<open>
  An array index as a property key: the decimal numeral of a natural number below
  4294967295 (two to the power 32, less one), without a leading zero (\<^verbatim>\<open>"0"\<close>,
  \<^verbatim>\<open>"17"\<close>; not \<^verbatim>\<open>"01"\<close>, not \<^verbatim>\<open>""\<close>, not \<^verbatim>\<open>"4294967295"\<close>).
\<close>

definition array_index :: "string \<Rightarrow> nat option" where
  "array_index k =
     (if k = [] \<or> \<not> list_all is_digit k \<or> (length k > 1 \<and> hd k = CHR ''0'') then None
      else (let n = foldl (\<lambda>a c. 10 * a + digit_val c) 0 k
            in if n < 4294967295 then Some n else None))"

subsection \<open>Conversion to a string\<close>

text \<open>
  \<^verbatim>\<open>String(v)\<close>, which is how a value becomes a property key (\<^verbatim>\<open>tranTbl[m.id]\<close>) and how
  \<^verbatim>\<open>"..." + v\<close> reads it. The source text of a function is not represented: a function
  converts to \<^verbatim>\<open>function\<close>.
\<close>

fun join :: "string \<Rightarrow> string list \<Rightarrow> string" where
  "join sep [] = []"
| "join sep [x] = x"
| "join sep (x # y # ys) = x @ sep @ join sep (y # ys)"

fun ToString :: "jsval \<Rightarrow> string"
  and ToString_elems :: "jsval list \<Rightarrow> string list" where
  "ToString Undefined = ''undefined''"
| "ToString Null = ''null''"
| "ToString (Bool b) = (if b then ''true'' else ''false'')"
| "ToString (Num n) = show_int n"
| "ToString (Str s) = s"
| "ToString (Arr xs ps) = join '','' (ToString_elems xs)"
| "ToString (Obj ps) = ''[object Object]''"
| "ToString (Fun f) = ''function''"
| "ToString OnReady = ''function''"
| "ToString (Stub i cbs c) = ''function''"
| "ToString (NativeError k) = k"
| "ToString_elems [] = []"
| "ToString_elems (x # xs) =
     (if x = Undefined \<or> x = Null then [] else ToString x) # ToString_elems xs"

subsection \<open>Reading and writing a property\<close>

text \<open>
  \<open>get v k\<close> is \<^verbatim>\<open>v[k]\<close> for a value \<open>v\<close> that is neither \<^verbatim>\<open>null\<close> nor \<^verbatim>\<open>undefined\<close> (on
  those the read throws a \<^verbatim>\<open>TypeError\<close>, which every caller writes out). It reads the
  value's own properties.
\<close>

fun get :: "jsval \<Rightarrow> string \<Rightarrow> jsval" where
  "get (Obj ps) k = (case map_of ps k of None \<Rightarrow> Undefined | Some v \<Rightarrow> v)"
| "get (Arr xs ps) k =
     (if k = ''length'' then Num (int (length xs))
      else case array_index k of
             Some i \<Rightarrow> if i < length xs then xs ! i else Undefined
           | None \<Rightarrow> (case map_of ps k of None \<Rightarrow> Undefined | Some v \<Rightarrow> v))"
| "get (Str s) k =
     (if k = ''length'' then Num (int (length s))
      else case array_index k of
             None \<Rightarrow> Undefined
           | Some i \<Rightarrow> if i < length s then Str [s ! i] else Undefined)"
| "get v k = Undefined"

text \<open>An object's property is overwritten in place, or added last.\<close>

fun set_prop :: "(string \<times> jsval) list \<Rightarrow> string \<Rightarrow> jsval \<Rightarrow> (string \<times> jsval) list" where
  "set_prop [] k v = [(k, v)]"
| "set_prop ((k', v') # ps) k v = (if k' = k then (k, v) # ps else (k', v') # set_prop ps k v)"

text \<open>
  \<open>put v k x\<close> is \<^verbatim>\<open>v[k] = x\<close> for a value \<open>v\<close> that is neither \<^verbatim>\<open>null\<close> nor
  \<^verbatim>\<open>undefined\<close>, giving \<open>v\<close> after the assignment. On an array: writing at an index past
  the end extends the array with holes; any other key but \<^verbatim>\<open>length\<close> names a property of
  the array object, which is stored like an object's; assigning to \<^verbatim>\<open>length\<close> a value that
  is not a number throws a \<^verbatim>\<open>RangeError\<close> (the values assigned in this file are objects
  and functions). An assignment to a property of a primitive value is ignored (the file is
  not in strict mode).
\<close>

fun put :: "jsval \<Rightarrow> string \<Rightarrow> jsval \<Rightarrow> jsval res" where
  "put (Obj ps) k x = Ok (Obj (set_prop ps k x))"
| "put (Arr xs ps) k x =
     (if k = ''length'' then Throw (NativeError ''RangeError'')
      else case array_index k of
             Some i \<Rightarrow>
               if i < length xs then Ok (Arr (xs[i := x]) ps)
               else Ok (Arr (xs @ replicate (i - length xs) Undefined @ [x]) ps)
           | None \<Rightarrow> Ok (Arr xs (set_prop ps k x)))"
| "put v k x = Ok v"

subsection \<open>Splitting a string\<close>

text \<open>\<^verbatim>\<open>s.split('/')\<close> and \<^verbatim>\<open>s.split('::')\<close>; the first argument collects the current piece.\<close>

fun split_slash :: "string \<Rightarrow> string \<Rightarrow> string list" where
  "split_slash acc [] = [rev acc]"
| "split_slash acc (c # cs) =
     (if c = CHR ''/'' then rev acc # split_slash [] cs else split_slash (c # acc) cs)"

fun split_colons :: "string \<Rightarrow> string \<Rightarrow> string list" where
  "split_colons acc [] = [rev acc]"
| "split_colons acc [c] = [rev (c # acc)]"
| "split_colons acc (c # d # cs) =
     (if c = CHR '':'' \<and> d = CHR '':'' then rev acc # split_colons [] cs
      else split_colons (c # acc) (d # cs))"

subsection \<open>Serialisation\<close>

text \<open>
  \<^verbatim>\<open>JSON.stringify\<close>, the platform's. A string is quoted with the escapes of JSON. In an
  array, \<^verbatim>\<open>undefined\<close> and functions are written \<^verbatim>\<open>null\<close>, and only the elements are
  written; in an object, a member whose value is \<^verbatim>\<open>undefined\<close> or a function is left out;
  an error object of the engine has no enumerable member and is written \<^verbatim>\<open>{}\<close>. Of \<^verbatim>\<open>undefined\<close> or a function alone the result
  is \<^verbatim>\<open>undefined\<close>. On the values of this model (trees) it does not throw.
\<close>

definition hex_char :: "nat \<Rightarrow> char" where
  "hex_char d = ''0123456789abcdef'' ! d"

definition escape_char :: "char \<Rightarrow> string" where
  "escape_char c =
     (if c = CHR 0x22 then [CHR 0x5C, CHR 0x22]
      else if c = CHR 0x5C then [CHR 0x5C, CHR 0x5C]
      else if c = CHR 0x08 then [CHR 0x5C, CHR ''b'']
      else if c = CHR 0x0C then [CHR 0x5C, CHR ''f'']
      else if c = CHR 0x0A then [CHR 0x5C, CHR ''n'']
      else if c = CHR 0x0D then [CHR 0x5C, CHR ''r'']
      else if c = CHR 0x09 then [CHR 0x5C, CHR ''t'']
      else if (of_char c :: nat) < 32
        then [CHR 0x5C, CHR ''u'', CHR ''0'', CHR ''0'',
              hex_char ((of_char c :: nat) div 16), hex_char ((of_char c :: nat) mod 16)]
      else [c])"

definition quote :: "string \<Rightarrow> string" where
  "quote s = CHR 0x22 # concat (map escape_char s) @ [CHR 0x22]"

definition serialisable :: "jsval \<Rightarrow> bool" where
  "serialisable v = (v \<noteq> Undefined \<and> typeof v \<noteq> ''function'')"

fun json_text :: "jsval \<Rightarrow> string"
  and json_elems :: "jsval list \<Rightarrow> string list"
  and json_members :: "(string \<times> jsval) list \<Rightarrow> string list" where
  "json_text Null = ''null''"
| "json_text (Bool b) = (if b then ''true'' else ''false'')"
| "json_text (Num n) = show_int n"
| "json_text (Str s) = quote s"
| "json_text (Arr xs ps) = ''['' @ join '','' (json_elems xs) @ '']''"
| "json_text (Obj ps) = ''{'' @ join '','' (json_members ps) @ ''}''"
| "json_text (NativeError k) = ''{}''"
| "json_text Undefined = ''null''"
| "json_text (Fun f) = ''null''"
| "json_text OnReady = ''null''"
| "json_text (Stub i cbs c) = ''null''"
| "json_elems [] = []"
| "json_elems (x # xs) = json_text x # json_elems xs"
| "json_members [] = []"
| "json_members ((k, v) # ps) =
     (if serialisable v then (quote k @ '':'' @ json_text v) # json_members ps
      else json_members ps)"

definition JSON_stringify :: "jsval \<Rightarrow> jsval" where
  "JSON_stringify v = (if serialisable v then Str (json_text v) else Undefined)"

text \<open>
  \<^verbatim>\<open>JSON.parse\<close>, the platform's, is not redone here. The text of an inbound event is
  given by what \<^verbatim>\<open>JSON.parse\<close> makes of it: text that is not well-formed (\<open>Malformed\<close>, on
  which \<^verbatim>\<open>JSON.parse\<close> throws a \<^verbatim>\<open>SyntaxError\<close>), or the value the text denotes.
\<close>

datatype payload = Malformed | Json jsval

fun JSON_parse :: "payload \<Rightarrow> jsval res" where
  "JSON_parse Malformed = Throw (NativeError ''SyntaxError'')"
| "JSON_parse (Json v) = Ok v"

section \<open>The channel\<close>

text \<open>
  What \<^verbatim>\<open>Channel.build\<close> keeps in its closure. An entry of the transaction table is
  \<^verbatim>\<open>{ t: 'in' }\<close> or \<^verbatim>\<open>{ t: 'out', callbacks, error, success }\<close>. \<open>msg_scope\<close> is
  \<open>None\<close> for \<^verbatim>\<open>undefined\<close>. \<open>remoteOrigin\<close> is \<open>tgt_origin\<close> and never changes.

  Two traces make the channel's effects on its surroundings visible: \<open>sent\<close>, the texts
  handed to \<^verbatim>\<open>tgt_win.postMessage(text, remoteOrigin)\<close>, oldest first; and \<open>calls\<close>, the
  calls of functions of the application (a handler with the request's parameters, a
  continuation or callback with its arguments), oldest first.

  \<open>regTbl\<close> and \<open>tranTbl\<close> hold the own properties of the two tables. \<open>tranProto\<close> says
  whether the prototype of the transaction table has been replaced by an entry
  \<^verbatim>\<open>{ t: 'in' }\<close> (see \<open>tran_open\<close> below).
\<close>

datatype tran = T_in | T_out "string \<rightharpoonup> jsval" jsval jsval

record chan =
  tgt_origin :: string
  msg_scope :: "string option"
  regTbl :: "string \<rightharpoonup> jsval"
  tranTbl :: "string \<rightharpoonup> tran"
  tranProto :: bool
  curTranId :: int
  ready :: bool
  pendingQueue :: "jsval list"
  child :: bool
  sent :: "jsval list"
  calls :: "(nat \<times> jsval list) list"

subsection \<open>The transaction table as an object\<close>

text \<open>
  \<^verbatim>\<open>tranTbl\<close> is an object created by \<^verbatim>\<open>{ }\<close>, and the id of a request, which is any
  truthy value of the message, is used as a key of it. So a read \<^verbatim>\<open>tranTbl[id]\<close> finds,
  besides the entries stored, the members that every object inherits from
  \<^verbatim>\<open>Object.prototype\<close> (functions), and under the key \<^verbatim>\<open>__proto__\<close> the prototype
  itself. What the code asks of the value it reads is whether it is truthy and what its
  \<^verbatim>\<open>t\<close> is: \<open>Absent\<close> is \<^verbatim>\<open>undefined\<close>, \<open>Entry\<close> is a stored entry, and \<open>Inherited\<close>
  is a truthy value that is no entry and has no \<^verbatim>\<open>t\<close> (an inherited function, the object
  \<^verbatim>\<open>Object.prototype\<close>, or the string found under \<^verbatim>\<open>t\<close> once the prototype is an
  entry).

  The assignment \<^verbatim>\<open>tranTbl[id] = { t: 'in' }\<close> stores an own property, except under the
  key \<^verbatim>\<open>__proto__\<close>, where (in an engine with the \<^verbatim>\<open>__proto__\<close> accessor) it makes the
  entry the prototype of the table and stores nothing. \<^verbatim>\<open>delete tranTbl[id]\<close> removes an
  own property; under \<^verbatim>\<open>__proto__\<close> there is none, and the prototype stays. Only the
  dispatcher assigns under a key taken from a message; \<^verbatim>\<open>query\<close> assigns under the
  numeral of \<^verbatim>\<open>curTranId\<close>.
\<close>

definition object_prototype_names :: "string list" where
  "object_prototype_names =
     [''constructor'', ''hasOwnProperty'', ''isPrototypeOf'', ''propertyIsEnumerable'',
      ''toLocaleString'', ''toString'', ''valueOf'', ''__defineGetter__'', ''__defineSetter__'',
      ''__lookupGetter__'', ''__lookupSetter__'']"

datatype slot = Absent | Entry tran | Inherited

definition tran_read :: "chan \<Rightarrow> string \<Rightarrow> slot" where
  "tran_read s k =
     (case tranTbl s k of
        Some e \<Rightarrow> Entry e
      | None \<Rightarrow>
          if k = ''__proto__'' then (if tranProto s then Entry T_in else Inherited)
          else if k \<in> set object_prototype_names then Inherited
          else if tranProto s \<and> k = ''t'' then Inherited
          else Absent)"

definition tran_open :: "chan \<Rightarrow> string \<Rightarrow> chan" where
  "tran_open s k =
     (if k = ''__proto__'' \<and> tranTbl s k = None then s\<lparr>tranProto := True\<rparr>
      else s\<lparr>tranTbl := (tranTbl s)(k \<mapsto> T_in)\<rparr>)"

definition tran_delete :: "chan \<Rightarrow> string \<Rightarrow> chan" where
  "tran_delete s k = s\<lparr>tranTbl := (tranTbl s)(k := None)\<rparr>"

subsection \<open>Sending\<close>

text \<open>
  \<^verbatim>\<open>debug\<close> only writes to the console and is left out throughout. A test of the form
  \<^verbatim>\<open>!a || b !== c\<close> is written \<open>\<not> (a \<and> b = c)\<close>.
\<close>

definition postMessage :: "jsval \<Rightarrow> chan \<Rightarrow> jsval res \<times> chan" where
  "postMessage msg s =
     (if \<not> truthy msg then (Throw (Str ''postMessage called with null message''), s)
      else if \<not> ready s then (Ok Undefined, s\<lparr>pendingQueue := pendingQueue s @ [msg]\<rparr>)
      else (Ok Undefined, s\<lparr>sent := sent s @ [JSON_stringify msg]\<rparr>))"

definition scopeMethod :: "chan \<Rightarrow> string \<Rightarrow> string" where
  "scopeMethod s m =
     (case msg_scope s of
        None \<Rightarrow> m
      | Some sc \<Rightarrow> if sc \<noteq> [] then join ''::'' [sc, m] else m)"

definition notify :: "jsval \<Rightarrow> chan \<Rightarrow> jsval res \<times> chan" where
  "notify m s =
     (if \<not> truthy m then (Throw (Str ''missing arguments to notify function''), s)
      else if \<not> (truthy (get m ''method'') \<and> typeof (get m ''method'') = ''string'')
        then (Throw (Str '''method' argument to notify must be string''), s)
      else postMessage (Obj [(''method'', Str (scopeMethod s (ToString (get m ''method'')))),
                             (''params'', get m ''params'')]) s)"

text \<open>The loop of \<^verbatim>\<open>onReady\<close>: while the queue is not empty, pop its last message and send it.\<close>

function drain :: "chan \<Rightarrow> chan" where
  "drain s =
     (if pendingQueue s = [] then s
      else drain (s\<lparr>sent := sent s @ [JSON_stringify (last (pendingQueue s))],
                    pendingQueue := butlast (pendingQueue s)\<rparr>))"
  by pat_completeness auto
termination
  by (relation "measure (\<lambda>s. length (pendingQueue s))") auto

declare drain.simps [simp del]

definition onReady :: "jsval \<Rightarrow> chan \<Rightarrow> jsval res \<times> chan" where
  "onReady args s =
     (let s1 = (drain s)\<lparr>ready := True\<rparr> in
      if args \<noteq> Str ''pong''
        then (case notify (Obj [(''method'', Str ''__ready''), (''params'', Str ''pong'')]) s1 of
                (Throw e, s2) \<Rightarrow> (Throw e, s2)
              | (Ok v, s2) \<Rightarrow> (Ok Undefined, s2))
      else (Ok Undefined, s1))"

subsection \<open>The transaction handle\<close>

text \<open>
  \<^verbatim>\<open>createTransaction(id, callbacks)\<close> returns an object of five functions closed over
  \<^verbatim>\<open>id\<close>, \<^verbatim>\<open>callbacks\<close> and two variables of its own. The handle is modelled by what the
  closure holds; each method takes the handle and gives it back.
\<close>

record trans =
  t_id :: jsval
  t_callbacks :: jsval
  shouldDelayReturn :: bool
  completed :: bool

definition createTransaction :: "jsval \<Rightarrow> jsval \<Rightarrow> trans" where
  "createTransaction i cbs =
     \<lparr>t_id = i, t_callbacks = cbs, shouldDelayReturn = False, completed = False\<rparr>"

text \<open>
  \<^verbatim>\<open>callbacks.length\<close> as the bound of a counting loop: a number bounds it, anything that is
  not a number is read as no iteration (conversions of other values to a number are not
  represented).
\<close>

definition callbacks_length :: "jsval \<Rightarrow> nat" where
  "callbacks_length cbs = (case get cbs ''length'' of Num n \<Rightarrow> nat n | _ \<Rightarrow> 0)"

function callback_valid :: "jsval \<Rightarrow> string \<Rightarrow> nat \<Rightarrow> bool" where
  "callback_valid cbs cbName i =
     (if i < callbacks_length cbs
        then (if Str cbName = get cbs (show_nat i) then True
              else callback_valid cbs cbName (i + 1))
      else False)"
  by pat_completeness auto
termination
  by (relation "measure (\<lambda>(cbs, cbName, i). callbacks_length cbs - i)") auto

declare callback_valid.simps [simp del]

text \<open>
  \<^verbatim>\<open>invoke\<close> tests \<^verbatim>\<open>!tranTbl[id]\<close> only. \<^verbatim>\<open>error\<close> and \<^verbatim>\<open>complete\<close> set
  \<^verbatim>\<open>completed\<close> first, then test \<^verbatim>\<open>!tranTbl[id]\<close> and \<^verbatim>\<open>tranTbl[id].t !== 'in'\<close>, then
  \<^verbatim>\<open>delete tranTbl[id]\<close> and call \<^verbatim>\<open>postMessage\<close>. Neither reads \<^verbatim>\<open>completed\<close>.
\<close>

definition invoke :: "jsval \<Rightarrow> jsval \<Rightarrow> string \<Rightarrow> jsval \<Rightarrow> chan \<Rightarrow> jsval res \<times> chan" where
  "invoke i cbs cbName v s =
     (if tran_read s (ToString i) = Absent
        then (Throw (Str (''attempting to invoke a callback of a non-existant transaction: ''
                          @ ToString i)), s)
      else if \<not> callback_valid cbs cbName 0
        then (Throw (Str (''request supports no such callback '' @ [CHR 0x27] @ cbName
                          @ [CHR 0x27])), s)
      else postMessage (Obj [(''id'', i), (''callback'', Str cbName), (''params'', v)]) s)"

definition trans_invoke :: "trans \<Rightarrow> string \<Rightarrow> jsval \<Rightarrow> chan \<Rightarrow> jsval res \<times> trans \<times> chan" where
  "trans_invoke tr cbName v s =
     (case invoke (t_id tr) (t_callbacks tr) cbName v s of (r, s') \<Rightarrow> (r, tr, s'))"

definition trans_error :: "trans \<Rightarrow> jsval \<Rightarrow> jsval \<Rightarrow> chan \<Rightarrow> jsval res \<times> trans \<times> chan" where
  "trans_error tr err message s =
     (let tr' = tr\<lparr>completed := True\<rparr>; k = ToString (t_id tr) in
      case tran_read s k of
        Absent \<Rightarrow> (Throw (Str (''error called for non-existant message: '' @ k)), tr', s)
      | Entry T_in \<Rightarrow>
          (case postMessage (Obj [(''id'', t_id tr), (''error'', err), (''message'', message)])
                  (tran_delete s k) of
             (r, s') \<Rightarrow> (r, tr', s'))
      | _ \<Rightarrow> (Throw (Str ''error called for message we *sent*.  that's not right''), tr', s))"

definition trans_complete :: "trans \<Rightarrow> jsval \<Rightarrow> chan \<Rightarrow> jsval res \<times> trans \<times> chan" where
  "trans_complete tr v s =
     (let tr' = tr\<lparr>completed := True\<rparr>; k = ToString (t_id tr) in
      case tran_read s k of
        Absent \<Rightarrow> (Throw (Str (''complete called for non-existant message: '' @ k)), tr', s)
      | Entry T_in \<Rightarrow>
          (case postMessage (Obj [(''id'', t_id tr), (''result'', v)]) (tran_delete s k) of
             (r, s') \<Rightarrow> (r, tr', s'))
      | _ \<Rightarrow> (Throw (Str ''complete called for message we *sent*.  that's not right''), tr', s))"

definition trans_delayReturn :: "trans \<Rightarrow> jsval \<Rightarrow> jsval \<times> trans" where
  "trans_delayReturn tr delay =
     (let tr' = (if typeof delay = ''boolean''
                 then tr\<lparr>shouldDelayReturn := (delay = Bool True)\<rparr> else tr)
      in (Bool (shouldDelayReturn tr'), tr'))"

definition trans_completed :: "trans \<Rightarrow> jsval" where
  "trans_completed tr = Bool (completed tr)"

subsection \<open>The facade: bind, unbind, query, notify\<close>

text \<open>
  \<^verbatim>\<open>regTbl\<close> is read here through its own properties: the names of the members that an
  object inherits are taken not to be used as method names.
\<close>

definition unbind :: "jsval \<Rightarrow> chan \<Rightarrow> jsval res \<times> chan" where
  "unbind method s = (Ok Undefined, s)"

definition bind :: "jsval \<Rightarrow> jsval \<Rightarrow> chan \<Rightarrow> jsval res \<times> chan" where
  "bind method cb s =
     (if \<not> (truthy method \<and> typeof method = ''string'')
        then (Throw (Str '''method' argument to bind must be string''), s)
      else if \<not> (truthy cb \<and> typeof cb = ''function'')
        then (Throw (Str ''callback missing from bind params''), s)
      else if regTbl s (ToString method) \<noteq> None
        then (Throw (Str (''method '' @ [CHR 0x27] @ ToString method @ [CHR 0x27]
                          @ '' is already bound!'')), s)
      else (Ok Undefined, s\<lparr>regTbl := (regTbl s)(ToString method \<mapsto> cb)\<rparr>))"

text \<open>
  \<^verbatim>\<open>pruneFunctions(path, obj)\<close>, with the two variables of \<^verbatim>\<open>query\<close> that it fills
  (\<^verbatim>\<open>callbacks\<close>, \<^verbatim>\<open>callbackNames\<close>) passed along and \<^verbatim>\<open>obj\<close> after the deletions given
  back. \<^verbatim>\<open>for (var k in obj)\<close> runs over the properties of an object, and over the indices
  of an array (\<open>prune_elems\<close>, from index \<open>i\<close>) and then its other properties; over
  \<^verbatim>\<open>null\<close> it runs over nothing. \<^verbatim>\<open>delete obj[k]\<close> removes a property and leaves a hole
  in an array.

  Each round of the loop begins with the call \<^verbatim>\<open>obj.hasOwnProperty(k)\<close>. What is called
  is the member of that name that \<^verbatim>\<open>obj\<close> has at that moment (\<open>own_check\<close>). When
  \<^verbatim>\<open>obj\<close> has no own member of that name, it is the method every object inherits, which
  answers \<^verbatim>\<open>true\<close> for a key of the loop. When it has one that is not a function, the
  call throws a \<^verbatim>\<open>TypeError\<close>, which leaves \<^verbatim>\<open>query\<close>. When it has one that is a
  function, that function is called and its answer decides whether the key is skipped; which
  answer it gives, \<open>hasOwn_answer\<close>, is left open (the constant is not specified, and what
  else such a function does when called is not followed). The walk passes the own member
  along (\<open>hop\<close>), and drops it once the loop has deleted it.
\<close>

type_synonym pruned = "(string \<rightharpoonup> jsval) \<times> string list"

definition subpath :: "string \<Rightarrow> string \<Rightarrow> string" where
  "subpath path k = path @ (if path \<noteq> [] then ''/'' else []) @ k"

definition hasOwn_answer :: "jsval \<Rightarrow> string \<Rightarrow> bool res" where
  "hasOwn_answer f k = undefined f k"

definition own_check :: "jsval option \<Rightarrow> string \<Rightarrow> bool res" where
  "own_check hop k =
     (case hop of
        None \<Rightarrow> Ok True
      | Some f \<Rightarrow> if typeof f = ''function'' then hasOwn_answer f k else Throw TypeError)"

fun pruneFunctions :: "string \<Rightarrow> jsval \<Rightarrow> pruned \<Rightarrow> (jsval \<times> pruned) res"
  and prune_props ::
    "string \<Rightarrow> jsval option \<Rightarrow> (string \<times> jsval) list \<Rightarrow> pruned
       \<Rightarrow> ((string \<times> jsval) list \<times> pruned) res"
  and prune_elems ::
    "string \<Rightarrow> jsval option \<Rightarrow> nat \<Rightarrow> jsval list \<Rightarrow> pruned \<Rightarrow> (jsval list \<times> pruned) res" where
  "pruneFunctions path (Obj ps) a =
     (case prune_props path (map_of ps ''hasOwnProperty'') ps a of
        Throw e \<Rightarrow> Throw e
      | Ok (ps', a') \<Rightarrow> Ok (Obj ps', a'))"
| "pruneFunctions path (Arr xs ps) a =
     (case prune_elems path (map_of ps ''hasOwnProperty'') 0 xs a of
        Throw e \<Rightarrow> Throw e
      | Ok (xs', a1) \<Rightarrow>
          (case prune_props path (map_of ps ''hasOwnProperty'') ps a1 of
             Throw e \<Rightarrow> Throw e
           | Ok (ps', a2) \<Rightarrow> Ok (Arr xs' ps', a2)))"
| "pruneFunctions path Undefined a = Ok (Undefined, a)"
| "pruneFunctions path Null a = Ok (Null, a)"
| "pruneFunctions path (Bool b) a = Ok (Bool b, a)"
| "pruneFunctions path (Num n) a = Ok (Num n, a)"
| "pruneFunctions path (Str t) a = Ok (Str t, a)"
| "pruneFunctions path (Fun f) a = Ok (Fun f, a)"
| "pruneFunctions path OnReady a = Ok (OnReady, a)"
| "pruneFunctions path (Stub i cbs c) a = Ok (Stub i cbs c, a)"
| "pruneFunctions path (NativeError k) a = Ok (NativeError k, a)"
| "prune_props path hop [] a = Ok ([], a)"
| "prune_props path hop ((k, v) # ps) a =
     (case own_check hop k of
        Throw e \<Rightarrow> Throw e
      | Ok own \<Rightarrow>
          if \<not> own then
            (case prune_props path hop ps a of
               Throw e \<Rightarrow> Throw e
             | Ok (ps', a') \<Rightarrow> Ok ((k, v) # ps', a'))
          else if typeof v = ''function'' then
            prune_props path (if k = ''hasOwnProperty'' then None else hop) ps
              ((fst a)(subpath path k \<mapsto> v), snd a @ [subpath path k])
          else if typeof v = ''object'' then
            (case pruneFunctions (subpath path k) v a of
               Throw e \<Rightarrow> Throw e
             | Ok (v', a1) \<Rightarrow>
                 (case prune_props path hop ps a1 of
                    Throw e \<Rightarrow> Throw e
                  | Ok (ps', a2) \<Rightarrow> Ok ((k, v') # ps', a2)))
          else
            (case prune_props path hop ps a of
               Throw e \<Rightarrow> Throw e
             | Ok (ps', a') \<Rightarrow> Ok ((k, v) # ps', a')))"
| "prune_elems path hop i [] a = Ok ([], a)"
| "prune_elems path hop i (v # xs) a =
     (case own_check hop (show_nat i) of
        Throw e \<Rightarrow> Throw e
      | Ok own \<Rightarrow>
          if \<not> own then
            (case prune_elems path hop (i + 1) xs a of
               Throw e \<Rightarrow> Throw e
             | Ok (xs', a') \<Rightarrow> Ok (v # xs', a'))
          else if typeof v = ''function'' then
            (case prune_elems path hop (i + 1) xs
                    ((fst a)(subpath path (show_nat i) \<mapsto> v),
                     snd a @ [subpath path (show_nat i)]) of
               Throw e \<Rightarrow> Throw e
             | Ok (xs', a') \<Rightarrow> Ok (Undefined # xs', a'))
          else if typeof v = ''object'' then
            (case pruneFunctions (subpath path (show_nat i)) v a of
               Throw e \<Rightarrow> Throw e
             | Ok (v', a1) \<Rightarrow>
                 (case prune_elems path hop (i + 1) xs a1 of
                    Throw e \<Rightarrow> Throw e
                  | Ok (xs', a2) \<Rightarrow> Ok (v' # xs', a2)))
          else
            (case prune_elems path hop (i + 1) xs a of
               Throw e \<Rightarrow> Throw e
             | Ok (xs', a') \<Rightarrow> Ok (v # xs', a')))"

text \<open>
  \<^verbatim>\<open>query(m)\<close>. An exception of the walk leaves \<^verbatim>\<open>query\<close> before anything is sent or
  stored.
\<close>

definition query :: "jsval \<Rightarrow> chan \<Rightarrow> jsval res \<times> chan" where
  "query m s =
     (if \<not> truthy m then (Throw (Str ''missing arguments to query function''), s)
      else if \<not> (truthy (get m ''method'') \<and> typeof (get m ''method'') = ''string'')
        then (Throw (Str '''method' argument to query must be string''), s)
      else if \<not> (truthy (get m ''success'') \<and> typeof (get m ''success'') = ''function'')
        then (Throw (Str '''success' callback missing from query''), s)
      else
        (case pruneFunctions [] (get m ''params'') (Map.empty, []) of
           Throw e \<Rightarrow> (Throw e, s)
         | Ok (params, callbacks, callbackNames) \<Rightarrow>
             (case postMessage
                     (Obj [(''id'', Num (curTranId s)),
                           (''method'', Str (scopeMethod s (ToString (get m ''method'')))),
                           (''params'', params),
                           (''callbacks'', Arr (map Str callbackNames) [])]) s of
                (Throw e, s1) \<Rightarrow> (Throw e, s1)
              | (Ok v, s1) \<Rightarrow>
                  (Ok Undefined,
                   s1\<lparr>tranTbl := (tranTbl s1)(ToString (Num (curTranId s1)) \<mapsto>
                                    T_out callbacks (get m ''error'') (get m ''success'')),
                      curTranId := curTranId s1 + 2\<rparr>))))"

subsection \<open>Functions of the application\<close>

text \<open>
  A function of the application is known to the channel by what it does to the channel when
  called: the calls it makes, in order, and then whether it returns a value or throws one.
  The calls are those on the transaction handle it was given (\<open>Invoke c v\<close> is
  \<^verbatim>\<open>trans.invoke(c, v)\<close>, which is also what calling the stub at path \<open>c\<close> of the
  parameters does; \<open>Error\<close>, \<open>Complete\<close>, \<open>DelayReturn\<close>), those on the channel
  itself (\<open>Query\<close>, \<open>Notify\<close>, \<open>Bind\<close>, \<open>Unbind\<close>), and those on the handle of another
  request that the application has kept (\<open>Other id callbacks\<close>, with a call on that
  handle). A call that throws ends the function with that exception, unless the function
  catches it (\<open>Try\<close>). A call on the own handle when none was passed (\<^verbatim>\<open>null\<close> for a
  notification) throws a \<^verbatim>\<open>TypeError\<close>. The application is the map from a function's
  identity and arguments to its script.
\<close>

datatype op =
    Invoke string jsval
  | Error jsval jsval
  | Complete jsval
  | DelayReturn jsval
  | Query jsval
  | Notify jsval
  | Bind jsval jsval
  | Unbind jsval
  | Try op
  | Other jsval jsval op

datatype outcome = Return jsval | Raise jsval

type_synonym script = "op list \<times> outcome"

type_synonym app = "nat \<Rightarrow> jsval list \<Rightarrow> script"

fun exec_op :: "op \<Rightarrow> trans option \<Rightarrow> chan \<Rightarrow> jsval res \<times> trans option \<times> chan" where
  "exec_op (Invoke c v) t s =
     (case t of
        None \<Rightarrow> (Throw TypeError, None, s)
      | Some tr \<Rightarrow> (case trans_invoke tr c v s of (r, tr', s') \<Rightarrow> (r, Some tr', s')))"
| "exec_op (Error err message) t s =
     (case t of
        None \<Rightarrow> (Throw TypeError, None, s)
      | Some tr \<Rightarrow> (case trans_error tr err message s of (r, tr', s') \<Rightarrow> (r, Some tr', s')))"
| "exec_op (Complete v) t s =
     (case t of
        None \<Rightarrow> (Throw TypeError, None, s)
      | Some tr \<Rightarrow> (case trans_complete tr v s of (r, tr', s') \<Rightarrow> (r, Some tr', s')))"
| "exec_op (DelayReturn d) t s =
     (case t of
        None \<Rightarrow> (Throw TypeError, None, s)
      | Some tr \<Rightarrow> (case trans_delayReturn tr d of (r, tr') \<Rightarrow> (Ok r, Some tr', s)))"
| "exec_op (Query q) t s = (case query q s of (r, s') \<Rightarrow> (r, t, s'))"
| "exec_op (Notify n) t s = (case notify n s of (r, s') \<Rightarrow> (r, t, s'))"
| "exec_op (Bind method cb) t s = (case bind method cb s of (r, s') \<Rightarrow> (r, t, s'))"
| "exec_op (Unbind method) t s = (case unbind method s of (r, s') \<Rightarrow> (r, t, s'))"
| "exec_op (Try x) t s =
     (case exec_op x t s of
        (Throw e, t', s') \<Rightarrow> (Ok Undefined, t', s')
      | (Ok v, t', s') \<Rightarrow> (Ok v, t', s'))"
| "exec_op (Other i cbs x) t s =
     (case exec_op x (Some (createTransaction i cbs)) s of (r, t', s') \<Rightarrow> (r, t, s'))"

fun run_ops :: "op list \<Rightarrow> trans option \<Rightarrow> chan \<Rightarrow> jsval res \<times> trans option \<times> chan" where
  "run_ops [] t s = (Ok Undefined, t, s)"
| "run_ops (x # xs) t s =
     (case exec_op x t s of
        (Throw e, t', s') \<Rightarrow> (Throw e, t', s')
      | (Ok v, t', s') \<Rightarrow> run_ops xs t' s')"

definition run_script :: "script \<Rightarrow> trans option \<Rightarrow> chan \<Rightarrow> jsval res \<times> trans option \<times> chan" where
  "run_script sc t s =
     (case run_ops (fst sc) t s of
        (Throw e, t', s') \<Rightarrow> (Throw e, t', s')
      | (Ok v, t', s') \<Rightarrow>
          (case snd sc of
             Return r \<Rightarrow> (Ok r, t', s')
           | Raise e \<Rightarrow> (Throw e, t', s')))"

text \<open>
  \<^verbatim>\<open>f(trans, params)\<close> for a registered function \<open>f\<close>; \<open>t\<close> is the handle, or \<open>None\<close> for
  \<^verbatim>\<open>null\<close>. A stub called this way passes its first argument on: the handle, an object whose
  members are all functions and which \<^verbatim>\<open>JSON.stringify\<close> therefore reads as \<^verbatim>\<open>{}\<close>.
\<close>

definition call_handler ::
  "app \<Rightarrow> jsval \<Rightarrow> trans option \<Rightarrow> jsval \<Rightarrow> chan \<Rightarrow> jsval res \<times> trans option \<times> chan" where
  "call_handler ap f t params s =
     (case f of
        Fun n \<Rightarrow> run_script (ap n [params]) t (s\<lparr>calls := calls s @ [(n, [params])]\<rparr>)
      | OnReady \<Rightarrow> (case onReady params s of (r, s') \<Rightarrow> (r, t, s'))
      | Stub i cbs c \<Rightarrow>
          (case invoke i cbs c (case t of None \<Rightarrow> Null | Some tr \<Rightarrow> Obj []) s of
             (r, s') \<Rightarrow> (r, t, s'))
      | _ \<Rightarrow> (Throw TypeError, t, s))"

text \<open>\<^verbatim>\<open>f(args)\<close> for a continuation or a callback \<open>f\<close> of an outbound transaction.\<close>

definition call_fn :: "app \<Rightarrow> jsval \<Rightarrow> jsval list \<Rightarrow> chan \<Rightarrow> jsval res \<times> chan" where
  "call_fn ap f args s =
     (case f of
        Fun n \<Rightarrow>
          (case run_script (ap n args) None (s\<lparr>calls := calls s @ [(n, args)]\<rparr>) of
             (r, t, s') \<Rightarrow> (r, s'))
      | OnReady \<Rightarrow> onReady (if 1 < length args then args ! 1 else Undefined) s
      | Stub i cbs c \<Rightarrow> invoke i cbs c (if 0 < length args then args ! 0 else Undefined) s
      | _ \<Rightarrow> (Throw TypeError, s))"

subsection \<open>Construction\<close>

text \<open>
  What \<^verbatim>\<open>Channel.build(tgt_win, tgt_origin, msg_scope)\<close> asks of its surroundings: whether
  \<^verbatim>\<open>window.postMessage\<close> and the three members of \<^verbatim>\<open>window.JSON\<close> exist, whether
  \<^verbatim>\<open>tgt_win\<close> is a window (\<^verbatim>\<open>tgt_win && tgt_win.postMessage\<close>), and whether
  \<^verbatim>\<open>tgt_win == window.parent\<close>.
\<close>

record env =
  window_postMessage :: bool
  window_JSON :: bool
  tgt_win_postMessage :: bool
  tgt_win_is_parent :: bool

definition is_alpha :: "char \<Rightarrow> bool" where
  "is_alpha c = ((97 \<le> (of_char c :: nat) \<and> (of_char c :: nat) \<le> 122)
               \<or> (65 \<le> (of_char c :: nat) \<and> (of_char c :: nat) \<le> 90))"

definition host_char :: "char \<Rightarrow> bool" where
  "host_char c = (c = CHR ''-'' \<or> is_alpha c \<or> is_digit c \<or> c = CHR ''.'')"

text \<open>The test \<^verbatim>\<open>/^https?:\/\/([-a-zA-Z0-9\.])+(:\d+)?$/\<close>.\<close>

definition origin_match :: "string \<Rightarrow> bool" where
  "origin_match t =
     (let r = (if take 8 t = ''https://'' then Some (drop 8 t)
               else if take 7 t = ''http://'' then Some (drop 7 t) else None)
      in case r of
           None \<Rightarrow> False
         | Some u \<Rightarrow>
             takeWhile host_char u \<noteq> [] \<and>
             (case dropWhile host_char u of
                [] \<Rightarrow> True
              | c # ds \<Rightarrow> c = CHR '':'' \<and> ds \<noteq> [] \<and> list_all is_digit ds))"

definition Channel_build :: "env \<Rightarrow> jsval \<Rightarrow> jsval \<Rightarrow> chan res" where
  "Channel_build w origin_arg scope_arg =
     (if \<not> window_postMessage w
        then Throw (Str ''jschannel cannot run this browser, no postMessage'')
      else if \<not> window_JSON w
        then Throw (Str ''jschannel cannot run this browser, no native JSON handling'')
      else if \<not> tgt_win_postMessage w
        then Throw (Str ''Channel.build() called without a valid window argument'')
      else if \<not> (typeof origin_arg = ''string''
                 \<and> (origin_arg = Str ''*'' \<or> origin_match (ToString origin_arg)))
        then Throw (Str ''Channel.build() called with an invalid origin'')
      else if typeof scope_arg \<noteq> ''undefined'' \<and> typeof scope_arg \<noteq> ''string''
        then Throw (Str ''scope, when specified, must be a string'')
      else if typeof scope_arg \<noteq> ''undefined''
              \<and> length (split_colons [] (ToString scope_arg)) > 1
        then Throw (Str (''scope may not contain double colons: '' @ [CHR 0x27] @ ''::''
                         @ [CHR 0x27]))
      else
        (let s0 = \<lparr>tgt_origin = ToString origin_arg,
                   msg_scope = (if typeof scope_arg = ''undefined'' then None
                                else Some (ToString scope_arg)),
                   regTbl = Map.empty, tranTbl = Map.empty, tranProto = False,
                   curTranId = 1000,
                   ready = False, pendingQueue = [], child = False, sent = [], calls = []\<rparr>;
             s1 = (if tgt_win_is_parent w
                   then s0\<lparr>curTranId := curTranId s0 + 1, ready := True, child := True\<rparr>
                   else s0\<lparr>ready := False\<rparr>)
         in case bind (Str ''__ready'') OnReady s1 of
              (Throw e, s2) \<Rightarrow> Throw e
            | (Ok v, s2) \<Rightarrow>
                (case notify (Obj [(''method'', Str ''__ready''), (''params'', Str ''ping'')])
                        (s2\<lparr>ready := True\<rparr>) of
                   (Throw e, s3) \<Rightarrow> Throw e
                 | (Ok v', s3) \<Rightarrow> Ok (s3\<lparr>ready := False\<rparr>))))"

subsection \<open>The dispatcher\<close>

record event =
  origin :: string
  data :: payload

definition nullish :: "jsval \<Rightarrow> bool" where
  "nullish v = (v = Undefined \<or> v = Null)"

text \<open>
  The first step of \<^verbatim>\<open>onMessage\<close> on a message: \<^verbatim>\<open>if (m.method && msg_scope)\<close>, take the
  scope off the method. The result is the message to go on with, or \<open>None\<close> where the
  source returns. \<^verbatim>\<open>m.method.split\<close> on a method that is not a string is a call of
  \<^verbatim>\<open>undefined\<close>, a \<^verbatim>\<open>TypeError\<close>.
\<close>

definition descope :: "chan \<Rightarrow> jsval \<Rightarrow> jsval option res" where
  "descope s m =
     (case msg_scope s of
        None \<Rightarrow> Ok (Some m)
      | Some sc \<Rightarrow>
          if truthy (get m ''method'') \<and> sc \<noteq> [] then
            (case get m ''method'' of
               Str meth \<Rightarrow>
                 (let ar = split_colons [] meth in
                  if length ar \<noteq> 2 then Ok None
                  else if ar ! 0 \<noteq> sc then Ok None
                  else (case put m ''method'' (Str (ar ! 1)) of
                          Throw e \<Rightarrow> Throw e
                        | Ok m' \<Rightarrow> Ok (Some m')))
             | _ \<Rightarrow> Throw TypeError)
          else Ok (Some m))"

text \<open>
  The inner loop over \<^verbatim>\<open>pathItems\<close> and the assignment of the stub after it, on the value
  \<^verbatim>\<open>obj\<close> stands for; the result is that value after the assignments below it. The
  reads \<^verbatim>\<open>obj[cp]\<close> are reads of own properties (\<open>get\<close>). For a member that an object
  or an array inherits and that is a function, this is the code's behaviour too: its
  \<^verbatim>\<open>typeof\<close> is not \<^verbatim>\<open>'object'\<close>, so an own property is assigned over it. It is not
  the code's behaviour for the key \<^verbatim>\<open>__proto__\<close>, nor for a path of several keys into
  parameters that are a string, a number or a boolean (whose inherited methods the code then
  walks into); \<open>stub_paths_modelled\<close> below says that a request has no such path.
\<close>

fun splice_path :: "jsval \<Rightarrow> string list \<Rightarrow> jsval \<Rightarrow> jsval res" where
  "splice_path obj [] stub = Ok obj"
| "splice_path obj [k] stub = (if nullish obj then Throw TypeError else put obj k stub)"
| "splice_path obj (cp # k # ks) stub =
     (if nullish obj then Throw TypeError
      else case (if typeof (get obj cp) \<noteq> ''object'' then put obj cp (Obj []) else Ok obj) of
             Throw e \<Rightarrow> Throw e
           | Ok obj1 \<Rightarrow>
               (case splice_path (get obj1 cp) (k # ks) stub of
                  Throw e \<Rightarrow> Throw e
                | Ok c \<Rightarrow> put obj1 cp c))"

text \<open>
  The outer loop over \<^verbatim>\<open>m.callbacks\<close>. \<^verbatim>\<open>path.split\<close> on a path that is not a string
  throws a \<^verbatim>\<open>TypeError\<close>.
\<close>

fun splice_all :: "jsval \<Rightarrow> jsval \<Rightarrow> jsval list \<Rightarrow> jsval \<Rightarrow> jsval res" where
  "splice_all i cbs [] params = Ok params"
| "splice_all i cbs (path # rest) params =
     (case path of
        Str p \<Rightarrow>
          (case splice_path params (split_slash [] p) (Stub i cbs p) of
             Throw e \<Rightarrow> Throw e
           | Ok params' \<Rightarrow> splice_all i cbs rest params')
      | _ \<Rightarrow> Throw TypeError)"

definition splice_callbacks :: "jsval \<Rightarrow> jsval res" where
  "splice_callbacks m =
     (case get m ''callbacks'' of
        Arr (c # cs) ps \<Rightarrow>
          splice_all (get m ''id'') (Arr (c # cs) ps) (c # cs) (get m ''params'')
      | _ \<Rightarrow> Ok (get m ''params''))"


text \<open>
  The \<^verbatim>\<open>catch\<close> block up to the call of \<^verbatim>\<open>trans.error\<close>: the error code and the message
  for a thrown value. \<^verbatim>\<open>e.error\<close> on \<^verbatim>\<open>null\<close> throws a \<^verbatim>\<open>TypeError\<close>. The line
  \<^verbatim>\<open>messasge = e.message\<close> assigns to another variable and leaves \<^verbatim>\<open>message\<close> as it is.
  The inner \<^verbatim>\<open>catch\<close> is for a \<^verbatim>\<open>JSON.stringify\<close> that throws, which it does not on the
  values of this model.
\<close>

definition normalize :: "jsval \<Rightarrow> (jsval \<times> jsval) res" where
  "normalize e =
     (let error0 = Str ''runtime_error''; message0 = Null in
      case (if typeof e = ''string'' then Ok (error0, e, e)
            else if typeof e = ''object'' then
              (case e of
                 Arr [a, b] ps \<Rightarrow> Ok (a, b, e)
               | _ \<Rightarrow>
                   if e = Null then Throw TypeError
                   else if typeof (get e ''error'') = ''string'' then
                     (if \<not> truthy (get e ''message'') then Ok (get e ''error'', Str [], e)
                      else if typeof (get e ''message'') = ''string''
                        then Ok (get e ''error'', message0, e)
                      else Ok (get e ''error'', message0, get e ''message''))
                   else Ok (error0, message0, e))
            else Ok (error0, message0, e)) of
        Throw x \<Rightarrow> Throw x
      | Ok (error, message, e') \<Rightarrow>
          Ok (error, if message = Null then JSON_stringify e' else message))"

text \<open>
  A request, once a handler \<open>h\<close> for its method is found (\<^verbatim>\<open>regTbl[m.method]\<close>).
  \<open>run_handler\<close> is the last two lines of the \<^verbatim>\<open>try\<close> block: the call of the handler
  with the handle and the parameters, and the completion with what it returns.
  \<open>try_request\<close> is the whole \<^verbatim>\<open>try\<close> block, \<open>handle_request\<close> the branch with its
  \<^verbatim>\<open>catch\<close> block.
\<close>

definition run_handler ::
  "app \<Rightarrow> jsval \<Rightarrow> trans \<Rightarrow> jsval \<Rightarrow> chan \<Rightarrow> jsval res \<times> trans \<times> chan" where
  "run_handler ap h tr params s =
     (case call_handler ap h (Some tr) params s of
        (Throw e, t', s') \<Rightarrow> (Throw e, (case t' of Some tr' \<Rightarrow> tr' | None \<Rightarrow> tr), s')
      | (Ok resp, t', s') \<Rightarrow>
          (let tr' = (case t' of Some tr' \<Rightarrow> tr' | None \<Rightarrow> tr) in
           if \<not> shouldDelayReturn tr' \<and> \<not> completed tr'
             then trans_complete tr' resp s'
           else (Ok Undefined, tr', s')))"

definition try_request ::
  "app \<Rightarrow> jsval \<Rightarrow> jsval \<Rightarrow> trans \<Rightarrow> chan \<Rightarrow> jsval res \<times> trans \<times> chan" where
  "try_request ap h m tr s =
     (case splice_callbacks m of
        Throw e \<Rightarrow> (Throw e, tr, s)
      | Ok params \<Rightarrow> run_handler ap h tr params s)"

definition handle_request :: "app \<Rightarrow> jsval \<Rightarrow> jsval \<Rightarrow> chan \<Rightarrow> bool res \<times> chan" where
  "handle_request ap h m s =
     (let trans = createTransaction (get m ''id'')
                    (if truthy (get m ''callbacks'') then get m ''callbacks'' else Arr [] []);
          s1 = tran_open s (ToString (get m ''id''))
      in case try_request ap h m trans s1 of
           (Ok v, tr', s') \<Rightarrow> (Ok True, s')
         | (Throw e, tr', s') \<Rightarrow>
             (case normalize e of
                Throw x \<Rightarrow> (Throw x, s')
              | Ok (error, message) \<Rightarrow>
                  (case trans_error tr' error message s' of
                     (Throw x, tr'', s'') \<Rightarrow> (Throw x, s'')
                   | (Ok v, tr'', s'') \<Rightarrow> (Ok True, s''))))"

text \<open>
  The branches for a callback invocation and for a response go on only when
  \<^verbatim>\<open>tranTbl[m.id].t\<close> is \<^verbatim>\<open>'out'\<close>, which only a stored entry of a query has. A value
  that the read finds elsewhere (an inherited member, or the prototype) is dropped like an
  absent one or an inbound one, so the two branches are written on the stored entries. The
  callbacks of an outbound transaction are read through the paths recorded: the names of
  the members that an object inherits are taken not to be used as the path of a callback
  invocation.
\<close>

definition handle_callback :: "app \<Rightarrow> jsval \<Rightarrow> chan \<Rightarrow> bool res \<times> chan" where
  "handle_callback ap m s =
     (case tranTbl s (ToString (get m ''id'')) of
        None \<Rightarrow> (Ok False, s)
      | Some T_in \<Rightarrow> (Ok False, s)
      | Some (T_out callbacks err succ) \<Rightarrow>
          (case callbacks (ToString (get m ''callback'')) of
             None \<Rightarrow> (Ok False, s)
           | Some f \<Rightarrow>
               (case call_fn ap f [get m ''params''] s of
                  (Throw x, s') \<Rightarrow> (Throw x, s')
                | (Ok v, s') \<Rightarrow> (Ok True, s'))))"

definition handle_response :: "app \<Rightarrow> jsval \<Rightarrow> chan \<Rightarrow> bool res \<times> chan" where
  "handle_response ap m s =
     (case tranTbl s (ToString (get m ''id'')) of
        None \<Rightarrow> (Ok False, s)
      | Some T_in \<Rightarrow> (Ok False, s)
      | Some (T_out callbacks err succ) \<Rightarrow>
          (case (if truthy (get m ''result'') then call_fn ap succ [get m ''result''] s
                 else call_fn ap err [get m ''error'', get m ''message''] s) of
             (Throw x, s') \<Rightarrow> (Throw x, s')
           | (Ok v, s') \<Rightarrow>
               (Ok True, s'\<lparr>tranTbl := (tranTbl s')(ToString (get m ''id'') := None)\<rparr>)))"

definition handle_notification :: "app \<Rightarrow> jsval \<Rightarrow> jsval \<Rightarrow> chan \<Rightarrow> bool res \<times> chan" where
  "handle_notification ap h m s =
     (case call_handler ap h None (get m ''params'') s of
        (Throw x, t', s') \<Rightarrow> (Throw x, s')
      | (Ok v, t', s') \<Rightarrow> (Ok True, s'))"

text \<open>
  The classification, \<^verbatim>\<open>if (m.id && m.method) ... else if (m.id && m.callback) ...\<close>. The
  result \<open>Ok handled\<close> says whether \<^verbatim>\<open>handled\<close> was set, that is, whether
  \<^verbatim>\<open>e.stopPropagation()\<close> is called.
\<close>

definition dispatch :: "app \<Rightarrow> jsval \<Rightarrow> chan \<Rightarrow> bool res \<times> chan" where
  "dispatch ap m s =
     (if truthy (get m ''id'') \<and> truthy (get m ''method'') then
        (case regTbl s (ToString (get m ''method'')) of
           None \<Rightarrow> (Ok False, s)
         | Some h \<Rightarrow> handle_request ap h m s)
      else if truthy (get m ''id'') \<and> truthy (get m ''callback'') then handle_callback ap m s
      else if truthy (get m ''id'') \<and> (truthy (get m ''result'') \<or> truthy (get m ''error''))
        then handle_response ap m s
      else if truthy (get m ''method'') then
        (case regTbl s (ToString (get m ''method'')) of
           None \<Rightarrow> (Ok False, s)
         | Some h \<Rightarrow> handle_notification ap h m s)
      else (Ok False, s))"

text \<open>
  \<^verbatim>\<open>onMessage(e)\<close>. The result is \<open>Throw x\<close> when an exception leaves \<^verbatim>\<open>onMessage\<close>. The
  first read of a property of the message, \<^verbatim>\<open>m.method\<close>, throws a \<^verbatim>\<open>TypeError\<close> when the
  message is \<^verbatim>\<open>null\<close>, whose \<^verbatim>\<open>typeof\<close> is \<^verbatim>\<open>'object'\<close>.
\<close>

definition onMessage :: "app \<Rightarrow> event \<Rightarrow> chan \<Rightarrow> bool res \<times> chan" where
  "onMessage ap e s =
     (if tgt_origin s \<noteq> ''*'' \<and> tgt_origin s \<noteq> origin e then (Ok False, s)
      else case JSON_parse (data e) of
             Throw x \<Rightarrow> (Throw x, s)
           | Ok m \<Rightarrow>
               if typeof m \<noteq> ''object'' then (Ok False, s)
               else if m = Null then (Throw TypeError, s)
               else (case descope s m of
                       Throw x \<Rightarrow> (Throw x, s)
                     | Ok None \<Rightarrow> (Ok False, s)
                     | Ok (Some m') \<Rightarrow> dispatch ap m' s))"

section \<open>What the callback marshaler extracts, stated on its own\<close>



text \<open>
  The callbacks recorded for a list of functions with their paths, in order: a later
  function at a path takes the place of an earlier one at the same path.
\<close>

definition record_all ::
  "(string \<times> jsval) list \<Rightarrow> (string \<rightharpoonup> jsval) \<Rightarrow> (string \<rightharpoonup> jsval)" where
  "record_all pfs cbs = fold (\<lambda>pf m. m(fst pf \<mapsto> snd pf)) pfs cbs"


section \<open>Two channels and an application, for the scenarios\<close>

text \<open>
  A parent's and a child's surroundings, two queries, and an application with seven
  functions: function 0 returns its argument (an echo handler), function 1 returns
  \<^verbatim>\<open>undefined\<close> (a continuation), function 2 completes its transaction with \<^verbatim>\<open>"done"\<close>
  through the handle and then throws \<^verbatim>\<open>"bad"\<close>, function 3 throws \<^verbatim>\<open>null\<close>, function 4
  throws \<^verbatim>\<open>"bad"\<close>, function 5 calls \<^verbatim>\<open>trans.delayReturn(true)\<close> and returns
  \<^verbatim>\<open>undefined\<close>, function 6 issues the query \<^verbatim>\<open>{method: "echo", params: "hi", success}\<close>
  on its own channel and returns \<^verbatim>\<open>"ok"\<close>. Every other function returns \<^verbatim>\<open>undefined\<close>.
\<close>

definition parent_env :: env where
  "parent_env = \<lparr>window_postMessage = True, window_JSON = True,
                  tgt_win_postMessage = True, tgt_win_is_parent = False\<rparr>"

definition child_env :: env where
  "child_env = \<lparr>window_postMessage = True, window_JSON = True,
                 tgt_win_postMessage = True, tgt_win_is_parent = True\<rparr>"

definition echo_query :: jsval where
  "echo_query = Obj [(''method'', Str ''echo''), (''params'', Str ''hi''), (''success'', Fun 1)]"

definition add_query :: jsval where
  "add_query = Obj [(''method'', Str ''add''), (''params'', Arr [Num 1, Num 2] []),
                    (''success'', Fun 1)]"

definition demo_app :: app where
  "demo_app n args =
     (if n = 0 then ([], Return (if args = [] then Undefined else hd args))
      else if n = 2 then ([Complete (Str ''done'')], Raise (Str ''bad''))
      else if n = 3 then ([], Raise Null)
      else if n = 4 then ([], Raise (Str ''bad''))
      else if n = 5 then ([DelayReturn (Bool True)], Return Undefined)
      else if n = 6 then ([Query echo_query], Return (Str ''ok''))
      else ([], Return Undefined))"

text \<open>
  The channel that \<^verbatim>\<open>Channel.build(tgt_win, "*")\<close> returns, in a parent and in a child (see
  \<open>build_parent\<close> and \<open>build_child\<close> below): the ping is out, the channel is not ready.
\<close>

definition ping :: jsval where
  "ping = Obj [(''method'', Str ''__ready''), (''params'', Str ''ping'')]"

definition pong :: jsval where
  "pong = Obj [(''method'', Str ''__ready''), (''params'', Str ''pong'')]"

definition parent0 :: chan where
  "parent0 = \<lparr>tgt_origin = ''*'', msg_scope = None, regTbl = [''__ready'' \<mapsto> OnReady],
               tranTbl = Map.empty, tranProto = False, curTranId = 1000, ready = False,
               pendingQueue = [], child = False, sent = [JSON_stringify ping], calls = []\<rparr>"

definition child0 :: chan where
  "child0 = \<lparr>tgt_origin = ''*'', msg_scope = None, regTbl = [''__ready'' \<mapsto> OnReady],
              tranTbl = Map.empty, tranProto = False, curTranId = 1001, ready = False,
              pendingQueue = [], child = True, sent = [JSON_stringify ping], calls = []\<rparr>"



definition request_of :: "chan \<Rightarrow> jsval \<Rightarrow> jsval" where
  "request_of s q =
     (case pruneFunctions [] (get q ''params'') (Map.empty, []) of
        Throw e \<Rightarrow> Undefined
      | Ok (params, callbacks, callbackNames) \<Rightarrow>
          Obj [(''id'', Num (curTranId s)),
               (''method'', Str (scopeMethod s (ToString (get q ''method'')))),
               (''params'', params),
               (''callbacks'', Arr (map Str callbackNames) [])])"

section \<open>Basic facts\<close>

lemma build_parent: "Channel_build parent_env (Str ''*'') Undefined = Ok parent0"
  by (simp add: Channel_build_def parent_env_def parent0_def ping_def bind_def notify_def
      postMessage_def scopeMethod_def)

lemma build_child: "Channel_build child_env (Str ''*'') Undefined = Ok child0"
  by (simp add: Channel_build_def child_env_def child0_def ping_def bind_def notify_def
      postMessage_def scopeMethod_def)

lemma postMessage_Obj:
  "postMessage (Obj ps) s =
     (Ok Undefined, if ready s then s\<lparr>sent := sent s @ [JSON_stringify (Obj ps)]\<rparr>
                    else s\<lparr>pendingQueue := pendingQueue s @ [Obj ps]\<rparr>)"
  by (simp add: postMessage_def)

text \<open>The loop of \<^verbatim>\<open>onReady\<close> sends the queue from its last message to its first.\<close>

lemma drain_eq:
  "drain s = s\<lparr>sent := sent s @ map JSON_stringify (rev (pendingQueue s)), pendingQueue := []\<rparr>"
proof (induction "pendingQueue s" arbitrary: s rule: rev_induct)
  case Nil
  then show ?case by (simp add: drain.simps)
next
  case (snoc x xs)
  let ?s' = "s\<lparr>sent := sent s @ [JSON_stringify (last (pendingQueue s))],
                pendingQueue := butlast (pendingQueue s)\<rparr>"
  from snoc(2) have q: "pendingQueue s = xs @ [x]" by simp
  then have "xs = pendingQueue ?s'" by simp
  from snoc(1)[OF this]
  have "drain ?s' = ?s'\<lparr>sent := sent ?s' @ map JSON_stringify (rev (pendingQueue ?s')),
                          pendingQueue := []\<rparr>" .
  moreover have "drain s = drain ?s'" using q by (subst drain.simps) simp
  ultimately show ?case using q by simp
qed

section \<open>Construction: a child is not ready either\<close>

text \<open>
  Claim C9 says that a channel whose target window is its own parent is ready right after
  construction, so that a query or notification goes to the transport and not to the queue.
  The code sets \<^verbatim>\<open>ready = true\<close> for the child and then, for every channel, ends
  construction with \<^verbatim>\<open>ready = true; obj.notify(...); ready = false\<close>. Evaluated for a
  child: the channel that is built is a child, it is not ready, and a notification issued on
  it is appended to the queue while nothing but the ping has reached the transport.
\<close>

theorem child_not_ready_after_build:
  "Channel_build child_env (Str ''*'') Undefined = Ok child0 \<and> child child0 \<and> \<not> ready child0
   \<and> notify (Obj [(''method'', Str ''hello''), (''params'', Num 1)]) child0
       = (Ok Undefined,
          child0\<lparr>pendingQueue := [Obj [(''method'', Str ''hello''), (''params'', Num 1)]]\<rparr>)
   \<and> sent child0 = [JSON_stringify ping]"
  by (simp add: build_child) (simp add: child0_def notify_def postMessage_def scopeMethod_def)

section \<open>The registry: unbind does nothing\<close>

text \<open>
  Claim C8 says that \<^verbatim>\<open>unbind(n)\<close> after \<^verbatim>\<open>bind(n, handler)\<close> removes the registration, so
  that \<^verbatim>\<open>bind(n, handler2)\<close> succeeds afterwards. The body of \<^verbatim>\<open>unbind\<close> is empty:
  whatever its argument, it returns and leaves the channel as it is. Evaluated on a new
  channel: after \<^verbatim>\<open>bind("echo", f0)\<close> and \<^verbatim>\<open>unbind("echo")\<close> the registration of
  \<^verbatim>\<open>f0\<close> is still there and \<^verbatim>\<open>bind("echo", f1)\<close> throws.
\<close>

theorem unbind_keeps_registration:
  "unbind n s = (Ok Undefined, s)
   \<and> (case bind (Str ''echo'') (Fun 0) parent0 of
      (r1, s1) \<Rightarrow>
        r1 = Ok Undefined \<and>
        (case unbind (Str ''echo'') s1 of
           (r2, s2) \<Rightarrow>
             r2 = Ok Undefined \<and> regTbl s2 ''echo'' = Some (Fun 0) \<and>
             fst (bind (Str ''echo'') (Fun 1) s2)
               = Throw (Str (''method '' @ [CHR 0x27] @ ''echo'' @ [CHR 0x27]
                             @ '' is already bound!''))))"
  by (simp add: bind_def unbind_def parent0_def)

section \<open>A thrown object with a string message\<close>

text \<open>
  Claim C3 says that for a thrown object whose \<^verbatim>\<open>error\<close> and \<^verbatim>\<open>message\<close> are strings, the
  error response carries that \<^verbatim>\<open>message\<close>. The code assigns it to a misspelt variable
  (\<^verbatim>\<open>messasge = e.message\<close>), so \<^verbatim>\<open>message\<close> stays \<^verbatim>\<open>null\<close> and is then replaced by the
  serialisation of the whole thrown value. Evaluated for
  \<^verbatim>\<open>{error: "custom", message: "oops"}\<close>: the code is \<^verbatim>\<open>"custom"\<close>, the message is the
  text of the whole object and not \<^verbatim>\<open>"oops"\<close>.
\<close>

theorem thrown_object_message_is_serialisation:
  \<open>normalize (Obj [(''error'', Str ''custom''), (''message'', Str ''oops'')])
     = Ok (Str ''custom'', Str ''{"error":"custom","message":"oops"}'')\<close>
  by (simp add: normalize_def JSON_stringify_def serialisable_def quote_def escape_char_def)

section \<open>Events that do not carry an object\<close>

text \<open>
  Claim C6, as amended. For every inbound event whose text denotes a value that is not an
  object, an array or \<^verbatim>\<open>null\<close> (a boolean, a number or a string), the dispatcher drops the
  event: it returns without an exception and without \<^verbatim>\<open>stopPropagation\<close>, and the state
  of the channel, the trace of calls included, is the one before, so no handler was invoked.
  For an event whose text is not well-formed, the dispatcher drops it when the origin does
  not match, and otherwise the \<^verbatim>\<open>SyntaxError\<close> of \<^verbatim>\<open>JSON.parse\<close> leaves the dispatcher;
  the state is the one before in both cases.
\<close>

theorem onMessage_drops_non_object:
  "(typeof m \<noteq> ''object'' \<longrightarrow>
      onMessage ap \<lparr>origin = og, data = Json m\<rparr> s = (Ok False, s))
   \<and> onMessage ap \<lparr>origin = og, data = Malformed\<rparr> s
       = (if tgt_origin s \<noteq> ''*'' \<and> tgt_origin s \<noteq> og then (Ok False, s)
          else (Throw (NativeError ''SyntaxError''), s))"
  by (simp add: onMessage_def)

theorem onMessage_drops_non_object_witness:
  "typeof (Str ''hello'') \<noteq> ''object''
   \<and> onMessage demo_app \<lparr>origin = ''http://a.example'', data = Json (Str ''hello'')\<rparr> parent0
       = (Ok False, parent0)"
  using onMessage_drops_non_object [of "Str ''hello''" demo_app "''http://a.example''" parent0]
  by simp

text \<open>
  Claim C6 as stated fails: on text that is not well-formed an exception does leave the
  dispatcher. (So does a \<^verbatim>\<open>TypeError\<close> on the text \<^verbatim>\<open>null\<close>, which denotes a value that is
  not a structured one.)
\<close>

theorem onMessage_malformed_throws:
  "fst (onMessage demo_app \<lparr>origin = ''http://a.example'', data = Malformed\<rparr> parent0)
     = Throw (NativeError ''SyntaxError'')
   \<and> fst (onMessage demo_app \<lparr>origin = ''http://a.example'', data = Json Null\<rparr> parent0)
     = Throw TypeError"
  by (simp add: onMessage_def parent0_def)

section \<open>Terminal calls on a transaction handle\<close>

lemmas run_defs = query_def postMessage_def scopeMethod_def parent0_def echo_query_def
  own_check_def subpath_def
  add_query_def request_of_def show_int_def show_nat.simps digit_char_def ping_def pong_def




section \<open>The readiness handshake\<close>

lemma query_ok:
  "query q s = (Ok Undefined, s') \<Longrightarrow>
     \<exists>p cbs names. pruneFunctions [] (get q ''params'') (Map.empty, []) = Ok (p, cbs, names)
       \<and> s' = (snd (postMessage (request_of s q) s))
            \<lparr>tranTbl := (tranTbl s)(ToString (Num (curTranId s)) \<mapsto>
                T_out cbs (get q ''error'') (get q ''success'')),
             curTranId := curTranId s + 2\<rparr>"
  by (auto simp add: query_def request_of_def postMessage_Obj
      split: if_splits prod.splits res.splits)

text \<open>A query on a channel that is not ready appends its request to the queue.\<close>

lemma query_queued:
  assumes "query q s = (Ok Undefined, s')" and "\<not> ready s"
  shows "pendingQueue s' = pendingQueue s @ [request_of s q] \<and> sent s' = sent s \<and> \<not> ready s'"
proof -
  from query_ok[OF assms(1)] obtain p cbs names where
    p: "pruneFunctions [] (get q ''params'') (Map.empty, []) = Ok (p, cbs, names)"
    and s': "s' = (snd (postMessage (request_of s q) s))
            \<lparr>tranTbl := (tranTbl s)(ToString (Num (curTranId s)) \<mapsto>
                T_out cbs (get q ''error'') (get q ''success'')),
             curTranId := curTranId s + 2\<rparr>"
    by blast
  from p have "truthy (request_of s q)" by (simp add: request_of_def)
  then show ?thesis using s' assms(2)
    by (simp add: postMessage_def)
qed

lemma ready_notification:
  assumes "tgt_origin s = ''*'' \<or> tgt_origin s = origin e"
    and "data e = Json m" and "typeof m = ''object''" and "m \<noteq> Null"
    and "descope s m = Ok (Some m')"
    and "\<not> truthy (get m' ''id'')" and "get m' ''method'' = Str ''__ready''"
    and "regTbl s ''__ready'' = Some OnReady"
  shows "onMessage ap e s
           = (Ok True,
              s\<lparr>sent := sent s @ map JSON_stringify (rev (pendingQueue s))
                          @ (if get m' ''params'' = Str ''pong'' then []
                             else [JSON_stringify
                                     (Obj [(''method'', Str (scopeMethod s ''__ready'')),
                                           (''params'', Str ''pong'')])]),
                pendingQueue := [], ready := True\<rparr>)"
  using assms
  by (auto simp add: onMessage_def dispatch_def handle_notification_def call_handler_def
      onReady_def drain_eq notify_def postMessage_Obj scopeMethod_def Let_def)

text \<open>
  Claim C5. Let an event pass the origin check and carry an object which, once the scope is
  taken off its method, is a notification (no id) for \<^verbatim>\<open>__ready\<close>, on a channel where
  \<^verbatim>\<open>__ready\<close> is bound to \<^verbatim>\<open>onReady\<close> as construction binds it. Then the dispatcher
  hands the serialisation of every queued message to the transport, the last queued first,
  leaves the queue empty and the channel ready, and, exactly when the payload is not
  \<^verbatim>\<open>"pong"\<close>, sends after them a \<^verbatim>\<open>__ready\<close> notification with payload \<^verbatim>\<open>"pong"\<close>.
  Hence, if the channel got to its state by two queries issued while it was not ready, the
  requests of both queries, as \<^verbatim>\<open>query\<close> built them, are sent: the second first, then the
  first, then what was queued before them.
\<close>

theorem ready_flushes_queue:
  assumes "tgt_origin s = ''*'' \<or> tgt_origin s = origin e"
    and "data e = Json m" and "typeof m = ''object''" and "m \<noteq> Null"
    and "descope s m = Ok (Some m')"
    and "\<not> truthy (get m' ''id'')" and "get m' ''method'' = Str ''__ready''"
    and "regTbl s ''__ready'' = Some OnReady"
  shows "onMessage ap e s
           = (Ok True,
              s\<lparr>sent := sent s @ map JSON_stringify (rev (pendingQueue s))
                          @ (if get m' ''params'' = Str ''pong'' then []
                             else [JSON_stringify
                                     (Obj [(''method'', Str (scopeMethod s ''__ready'')),
                                           (''params'', Str ''pong'')])]),
                pendingQueue := [], ready := True\<rparr>)
       \<and> (\<forall>s0 q1 q2 s1.
             \<not> ready s0 \<and> query q1 s0 = (Ok Undefined, s1) \<and> query q2 s1 = (Ok Undefined, s) \<longrightarrow>
             sent (snd (onMessage ap e s))
               = sent s0
                 @ [JSON_stringify (request_of s1 q2), JSON_stringify (request_of s0 q1)]
                 @ map JSON_stringify (rev (pendingQueue s0))
                 @ (if get m' ''params'' = Str ''pong'' then []
                    else [JSON_stringify
                            (Obj [(''method'', Str (scopeMethod s ''__ready'')),
                                  (''params'', Str ''pong'')])]))"
proof (intro conjI allI impI)
  show flush: "onMessage ap e s
           = (Ok True,
              s\<lparr>sent := sent s @ map JSON_stringify (rev (pendingQueue s))
                          @ (if get m' ''params'' = Str ''pong'' then []
                             else [JSON_stringify
                                     (Obj [(''method'', Str (scopeMethod s ''__ready'')),
                                           (''params'', Str ''pong'')])]),
                pendingQueue := [], ready := True\<rparr>)"
    by (rule ready_notification[OF assms])
  fix s0 q1 q2 s1
  assume h: "\<not> ready s0 \<and> query q1 s0 = (Ok Undefined, s1) \<and> query q2 s1 = (Ok Undefined, s)"
  from h query_queued[of q1 s0 s1]
  have q1: "pendingQueue s1 = pendingQueue s0 @ [request_of s0 q1]" "sent s1 = sent s0"
    "\<not> ready s1"
    by simp_all
  from h q1(3) query_queued[of q2 s1 s]
  have q2: "pendingQueue s = pendingQueue s1 @ [request_of s1 q2]" "sent s = sent s1"
    by simp_all
  show "sent (snd (onMessage ap e s))
               = sent s0
                 @ [JSON_stringify (request_of s1 q2), JSON_stringify (request_of s0 q1)]
                 @ map JSON_stringify (rev (pendingQueue s0))
                 @ (if get m' ''params'' = Str ''pong'' then []
                    else [JSON_stringify
                            (Obj [(''method'', Str (scopeMethod s ''__ready'')),
                                  (''params'', Str ''pong'')])])"
    by (simp add: flush q1 q2)
qed

text \<open>
  On a parent's new channel: two queries, then the child's ping arrives. The transport has
  got the parent's ping, the second request, the first request, and the pong.
\<close>

theorem ready_flushes_queue_witness:
  "(let s1 = snd (query echo_query parent0); s2 = snd (query add_query s1);
        e = \<lparr>origin = ''http://child.example'', data = Json ping\<rparr>
    in query echo_query parent0 = (Ok Undefined, s1) \<and> query add_query s1 = (Ok Undefined, s2)
       \<and> onMessage demo_app e s2
          = (Ok True,
             s2\<lparr>sent := [JSON_stringify ping, JSON_stringify (request_of s1 add_query),
                         JSON_stringify (request_of parent0 echo_query), JSON_stringify pong],
                pendingQueue := [], ready := True\<rparr>))"
  using ready_flushes_queue [of "snd (query add_query (snd (query echo_query parent0)))"
      "\<lparr>origin = ''http://child.example'', data = Json ping\<rparr>" ping ping demo_app]
  by (simp add: run_defs descope_def Let_def)

section \<open>A response with a falsy result\<close>

text \<open>
  Claim C10, as amended. For every inbound message that passes the origin check and carries
  a falsy result (\<^verbatim>\<open>0\<close>, \<^verbatim>\<open>false\<close>, \<^verbatim>\<open>null\<close>, the empty string, or none), no error, no
  method and no callback (or falsy ones), whatever its id, the dispatcher drops it: it
  returns without \<^verbatim>\<open>stopPropagation\<close> and the state is the one before, so neither
  continuation of the matching outbound transaction has fired and the transaction is still
  in the table. Hence a success continuation is never called with a falsy result: the
  branch for responses is the only one that calls it, and on any message with a falsy result
  that branch calls the error continuation of an outbound transaction, or nothing.
\<close>

theorem falsy_result_dropped:
  assumes "tgt_origin s = ''*'' \<or> tgt_origin s = origin e" and "data e = Json m"
    and "typeof m = ''object''" and "m \<noteq> Null"
    and "\<not> truthy (get m ''method'')" and "\<not> truthy (get m ''callback'')"
    and "\<not> truthy (get m ''result'')" and "\<not> truthy (get m ''error'')"
  shows "onMessage ap e s = (Ok False, s)
       \<and> (\<forall>m2. \<not> truthy (get m2 ''result'') \<longrightarrow>
             handle_response ap m2 s
               = (case tranTbl s (ToString (get m2 ''id'')) of
                    None \<Rightarrow> (Ok False, s)
                  | Some T_in \<Rightarrow> (Ok False, s)
                  | Some (T_out callbacks err succ) \<Rightarrow>
                      (case call_fn ap err [get m2 ''error'', get m2 ''message''] s of
                         (Throw x, s') \<Rightarrow> (Throw x, s')
                       | (Ok v, s') \<Rightarrow>
                           (Ok True,
                            s'\<lparr>tranTbl := (tranTbl s')(ToString (get m2 ''id'') := None)\<rparr>))))"
proof (intro conjI allI impI)
  show "onMessage ap e s = (Ok False, s)"
    using assms
    by (auto simp add: onMessage_def descope_def dispatch_def split: option.splits)
next
  fix m2
  assume "\<not> truthy (get m2 ''result'')"
  then show "handle_response ap m2 s
               = (case tranTbl s (ToString (get m2 ''id'')) of
                    None \<Rightarrow> (Ok False, s)
                  | Some T_in \<Rightarrow> (Ok False, s)
                  | Some (T_out callbacks err succ) \<Rightarrow>
                      (case call_fn ap err [get m2 ''error'', get m2 ''message''] s of
                         (Throw x, s') \<Rightarrow> (Throw x, s')
                       | (Ok v, s') \<Rightarrow>
                           (Ok True,
                            s'\<lparr>tranTbl := (tranTbl s')(ToString (get m2 ''id'') := None)\<rparr>)))"
    by (simp add: handle_response_def split: option.splits tran.splits)
qed

theorem falsy_result_dropped_witness:
  "(let s = snd (query echo_query parent0);
        e = \<lparr>origin = ''http://child.example'',
             data = Json (Obj [(''id'', Num 1000), (''result'', Num 0)])\<rparr>
    in tranTbl s ''1000'' \<noteq> None \<and> onMessage demo_app e s = (Ok False, s))"
  using falsy_result_dropped [of "snd (query echo_query parent0)"
      "\<lparr>origin = ''http://child.example'',
        data = Json (Obj [(''id'', Num 1000), (''result'', Num 0)])\<rparr>"
      "Obj [(''id'', Num 1000), (''result'', Num 0)]" demo_app]
  by (simp add: run_defs Let_def)

text \<open>
  Claim C10 as stated fails for a message that also carries a method: \<^verbatim>\<open>id\<close> and
  \<^verbatim>\<open>method\<close> make it a request, whatever else it carries. After a query with id 1000, the
  message \<^verbatim>\<open>{id: 1000, method: "__ready", params: "pong", result: 0}\<close> is handled, not
  dropped, and transaction 1000 is no longer in the table afterwards.
\<close>

theorem falsy_result_with_method_handled:
  "(let s = snd (query echo_query parent0);
        e = \<lparr>origin = ''http://child.example'',
             data = Json (Obj [(''id'', Num 1000), (''method'', Str ''__ready''),
                               (''params'', Str ''pong''), (''result'', Num 0)])\<rparr>
    in (\<exists>cbs ef. tranTbl s ''1000'' = Some (T_out cbs ef (Fun 1)))
       \<and> fst (onMessage demo_app e s) = Ok True
       \<and> tranTbl (snd (onMessage demo_app e s)) ''1000'' = None
       \<and> ready (snd (onMessage demo_app e s)))"
  by (simp add: run_defs Let_def onMessage_def descope_def dispatch_def handle_request_def
      try_request_def run_handler_def splice_callbacks_def call_handler_def onReady_def
      drain_eq notify_def createTransaction_def trans_complete_def tran_read_def tran_open_def
      tran_delete_def)

section \<open>The callback marshaler\<close>

lemma record_all_simps [simp]:
  "record_all [] m = m"
  "record_all (pf # pfs) m = record_all pfs (m(fst pf \<mapsto> snd pf))"
  "record_all (xs @ ys) m = record_all ys (record_all xs m)"
  by (simp_all add: record_all_def)


lemma own_check_inherited [simp]: "own_check None k = Ok True"
  by (simp add: own_check_def)








section \<open>Requests\<close>




lemmas dispatch_defs = onMessage_def descope_def dispatch_def handle_request_def
  try_request_def run_handler_def splice_callbacks_def call_handler_def call_fn_def
  run_script_def onReady_def drain_eq notify_def createTransaction_def trans_complete_def
  trans_error_def handle_response_def handle_notification_def demo_app_def bind_def child0_def
  JSON_stringify_def serialisable_def quote_def escape_char_def normalize_def TypeError_def
  tran_read_def tran_open_def tran_delete_def object_prototype_names_def






section \<open>A handler that throws\<close>

text \<open>
  Claim C4 says that whatever a request handler throws, also after it has completed its
  transaction through the handle, the dispatcher catches it and answers with a Response
  error, and no exception leaves the dispatcher. The \<^verbatim>\<open>catch\<close> block does so for a
  handler that throws \<^verbatim>\<open>"bad"\<close> (function 4): the Response with code
  \<^verbatim>\<open>"runtime_error"\<close> and message \<^verbatim>\<open>"bad"\<close> is queued. But it calls \<^verbatim>\<open>trans.error\<close>
  without the test \<^verbatim>\<open>!trans.completed()\<close> that guards the automatic completion two lines
  above it. Evaluated for the handler the claim names, one that first completes its
  transaction and then throws (function 2): the Response of the completion is the only
  one, \<^verbatim>\<open>trans.error\<close> throws because the transaction is no longer in the table, and that
  exception leaves the dispatcher. And the block reads \<^verbatim>\<open>e.error\<close> without the test for
  \<^verbatim>\<open>null\<close> that guards the reading of \<^verbatim>\<open>e.length\<close> before it. Evaluated for a handler
  that throws \<^verbatim>\<open>null\<close> (function 3): a \<^verbatim>\<open>TypeError\<close> leaves the dispatcher, and no
  Response is sent or queued.
\<close>

theorem completed_then_thrown_leaves_dispatcher:
  "(let s = snd (bind (Str ''fail'') (Fun 4) parent0);
        e = \<lparr>origin = ''http://child.example'',
             data = Json (Obj [(''id'', Num 7), (''method'', Str ''fail''), (''params'', Null)])\<rparr>
    in onMessage demo_app e s
         = (Ok True,
            s\<lparr>calls := [(4, [Null])],
              pendingQueue := [Obj [(''id'', Num 7), (''error'', Str ''runtime_error''),
                                    (''message'', Str ''bad'')]]\<rparr>))
   \<and> (let s = snd (bind (Str ''boom'') (Fun 2) parent0);
        e = \<lparr>origin = ''http://child.example'',
             data = Json (Obj [(''id'', Num 7), (''method'', Str ''boom''), (''params'', Null)])\<rparr>
    in fst (onMessage demo_app e s) = Throw (Str ''error called for non-existant message: 7'')
     \<and> pendingQueue (snd (onMessage demo_app e s))
         = [Obj [(''id'', Num 7), (''result'', Str ''done'')]]
     \<and> sent (snd (onMessage demo_app e s)) = sent s)
   \<and> (let s = snd (bind (Str ''null'') (Fun 3) parent0);
        e = \<lparr>origin = ''http://child.example'',
             data = Json (Obj [(''id'', Num 7), (''method'', Str ''null''), (''params'', Null)])\<rparr>
    in fst (onMessage demo_app e s) = Throw TypeError
     \<and> pendingQueue (snd (onMessage demo_app e s)) = []
     \<and> sent (snd (onMessage demo_app e s)) = sent s)"
  by (simp add: run_defs dispatch_defs Let_def)

end
